theory Spec2Isabelle
  imports Main
begin

section \<open>Errors and the error middleware\<close>

text \<open>
  Everything the service throws is a value of \<open>error\<close>.  \<open>AppError\<close> is the class of
  \<^verbatim>\<open>error.middleware.ts\<close> (status code and message).  \<open>DbError\<close> is an error object
  that carries a \<^verbatim>\<open>code\<close> property (what the PostgreSQL driver throws).  \<open>ThrownError\<close>
  is any other \<^verbatim>\<open>Error\<close>, with its name and its message: what \<^verbatim>\<open>jsonwebtoken\<close> throws
  from \<^verbatim>\<open>jwt.verify\<close> is of this kind.
\<close>

datatype error =
    AppError nat string
  | DbError string
  | ThrownError string string

text \<open>
  \<^verbatim>\<open>errorHandler\<close>: the status code and the message of the response.  The status is
  500 unless one of the branches replaces it.
\<close>

definition errorHandler :: "error \<Rightarrow> nat \<times> string" where
  "errorHandler err =
     (case err of
        AppError statusCode message \<Rightarrow> (statusCode, message)
      | DbError code \<Rightarrow>
          (if code = ''23505'' then (409, ''Resource already exists'')
           else if code = ''23503'' then (400, ''Invalid reference'')
           else if code = ''23502'' then (400, ''Required field missing'')
           else (500, ''Database error''))
      | ThrownError _ message \<Rightarrow> (500, message))"

text \<open>The failure kinds of the specification, as the service throws them.\<close>

definition NotFound :: error where
  "NotFound = AppError 404 ''User not found''"

definition WrongAuthMethod :: error where
  "WrongAuthMethod = AppError 400 ''Please login with Google''"

definition InvalidCredentials :: error where
  "InvalidCredentials = AppError 401 ''Invalid password''"

definition RefreshReuseOrInvalid :: error where
  "RefreshReuseOrInvalid = AppError 401 ''Refresh token reuse detected or invalid''"

definition RefreshExpired :: error where
  "RefreshExpired = AppError 401 ''Refresh token expired''"

section \<open>Tables\<close>

text \<open>
  A row of \<^verbatim>\<open>users\<close> (\<^verbatim>\<open>user.schema.ts\<close>) and a row of \<^verbatim>\<open>refresh_tokens\<close>
  (\<^verbatim>\<open>user_tokens.schema.ts\<close>).  Nullable columns are options, timestamps are
  milliseconds since the epoch, a uuid is a natural number.  The column \<^verbatim>\<open>id\<close> is
  \<open>uid\<close> in \<open>user\<close> and \<open>tid\<close> in \<open>refresh_token\<close>; \<^verbatim>\<open>createdAt\<close> of a token row is
  \<open>issuedAt\<close>.
\<close>

record user =
  uid :: nat
  email :: string
  name :: string
  password :: "string option"
  googleId :: "string option"
  authProvider :: "string option"
  avatar :: "string option"
  lastLoginAt :: nat
  createdAt :: nat
  updatedAt :: nat

record refresh_token =
  tid :: nat
  userId :: nat
  tokenHash :: string
  device :: "string option"
  expiresAt :: nat
  revoked :: bool
  issuedAt :: nat

text \<open>
  The database: both tables in insertion order, and the source of \<^verbatim>\<open>defaultRandom()\<close>
  (a counter, so that every generated uuid is new).
\<close>

record db =
  users :: "user list"
  refreshTokens :: "refresh_token list"
  uuid_seq :: nat

text \<open>The values that \<^verbatim>\<open>_generateAuthResponse\<close> passes to \<^verbatim>\<open>db.insert(refreshTokens)\<close>.\<close>

record new_refresh_token =
  new_userId :: nat
  new_tokenHash :: string
  new_device :: string
  new_expiresAt :: nat

text \<open>
  \<^verbatim>\<open>db.insert(refreshTokens).values(...)\<close> on the schema as declared: \<^verbatim>\<open>id\<close> is
  generated, \<^verbatim>\<open>revoked\<close> defaults to false, \<^verbatim>\<open>createdAt\<close> to the current time.  The
  column \<^verbatim>\<open>token_hash\<close> is declared \<^verbatim>\<open>text('token_hash').notNull()\<close>, with no unique
  constraint, so no existing row makes the insertion fail.
\<close>

definition insert_refreshToken :: "nat \<Rightarrow> db \<Rightarrow> new_refresh_token \<Rightarrow> error + db" where
  "insert_refreshToken now d v =
     Inr (d\<lparr>refreshTokens := refreshTokens d @
                [\<lparr>tid = uuid_seq d, userId = new_userId v, tokenHash = new_tokenHash v,
                  device = Some (new_device v), expiresAt = new_expiresAt v,
                  revoked = False, issuedAt = now\<rparr>],
             uuid_seq := Suc (uuid_seq d)\<rparr>)"

text \<open>
  The queries of the service.  A \<^verbatim>\<open>select ... limit(1)\<close> takes the first row that matches.
  \<open>select_refreshToken h\<close> is the query of \<^verbatim>\<open>refresh\<close>:
  \<^verbatim>\<open>where(and(eq(tokenHash, h), eq(revoked, false))).limit(1)\<close>.
\<close>

definition select_user_by_email :: "string \<Rightarrow> db \<Rightarrow> user option" where
  "select_user_by_email m d = find (\<lambda>u. email u = m) (users d)"

definition select_user_by_id :: "nat \<Rightarrow> db \<Rightarrow> user option" where
  "select_user_by_id i d = find (\<lambda>u. uid u = i) (users d)"

definition select_refreshToken :: "string \<Rightarrow> db \<Rightarrow> refresh_token option" where
  "select_refreshToken h d =
     find (\<lambda>r. tokenHash r = h \<and> revoked r = False) (refreshTokens d)"

text \<open>All the rows that this query matches, in table order: the live records of a fingerprint.\<close>

definition live_records :: "string \<Rightarrow> db \<Rightarrow> refresh_token list" where
  "live_records h d = filter (\<lambda>r. tokenHash r = h \<and> revoked r = False) (refreshTokens d)"

text \<open>\<^verbatim>\<open>db.delete(refreshTokens).where(eq(refreshTokens.id, i))\<close>.\<close>

definition delete_refreshToken :: "nat \<Rightarrow> db \<Rightarrow> db" where
  "delete_refreshToken i d = d\<lparr>refreshTokens := filter (\<lambda>r. tid r \<noteq> i) (refreshTokens d)\<rparr>"

text \<open>\<^verbatim>\<open>db.delete(refreshTokens).where(eq(refreshTokens.tokenHash, h))\<close>.\<close>

definition delete_refreshTokens_by_hash :: "string \<Rightarrow> db \<Rightarrow> db" where
  "delete_refreshTokens_by_hash h d =
     d\<lparr>refreshTokens := filter (\<lambda>r. tokenHash r \<noteq> h) (refreshTokens d)\<rparr>"

text \<open>\<^verbatim>\<open>db.update(users).set({ lastLoginAt: new Date() }).where(eq(users.id, i))\<close>.\<close>

definition touch_lastLogin :: "nat \<Rightarrow> nat \<Rightarrow> db \<Rightarrow> db" where
  "touch_lastLogin now i d =
     d\<lparr>users := map (\<lambda>u. if uid u = i then u\<lparr>lastLoginAt := now\<rparr> else u) (users d)\<rparr>"

text \<open>
  \<^verbatim>\<open>db.update(users).set({ googleId: sub, authProvider: 'google' }).where(eq(users.id, i))\<close>.
\<close>

definition link_google :: "nat \<Rightarrow> string \<Rightarrow> db \<Rightarrow> db" where
  "link_google i sub d =
     d\<lparr>users := map (\<lambda>x. if uid x = i
                        then x\<lparr>googleId := Some sub, authProvider := Some ''google''\<rparr>
                        else x) (users d)\<rparr>"

section \<open>Libraries and configuration\<close>

text \<open>
  The option \<^verbatim>\<open>expiresIn\<close> of \<^verbatim>\<open>jwt.sign\<close>: \<^verbatim>\<open>"15m"\<close> is \<open>Minutes 15\<close>, \<^verbatim>\<open>"7d"\<close> is
  \<open>Days 7\<close>.
\<close>

datatype timespan = Minutes nat | Days nat

fun span_seconds :: "timespan \<Rightarrow> nat" where
  "span_seconds (Minutes m) = m * 60"
| "span_seconds (Days d) = d * 24 * 60 * 60"

text \<open>The payload \<^verbatim>\<open>{ id: user.id, email: user.email }\<close> that both tokens sign.\<close>

record jwt_payload =
  payload_id :: nat
  payload_email :: string

text \<open>
  What \<^verbatim>\<open>jwt.verify\<close> returns when it returns: a payload object, or a string when the
  token's payload is a string.
\<close>

datatype jwt_decoded = PayloadObject jwt_payload | PayloadString string

text \<open>The payload of a Google ID token (\<^verbatim>\<open>ticket.getPayload()\<close>).\<close>

record google_payload =
  g_email :: "string option"
  g_name :: "string option"
  g_sub :: string
  g_picture :: "string option"

text \<open>
  The configuration (\<^verbatim>\<open>config/env.ts\<close>) and the library functions the service calls.
  The libraries are not code of the repository, so they are parameters:
  \<^item> \<open>jwt_sign payload secret expiresIn now\<close> is \<^verbatim>\<open>jwt.sign\<close> called at time \<open>now\<close>;
  \<^item> \<open>jwt_verify token secret now\<close> is \<^verbatim>\<open>jwt.verify\<close>: \<open>Inl\<close> is the error it throws;
  \<^item> \<open>sha256_hex\<close> is \<^verbatim>\<open>crypto.createHash("sha256").update(token).digest("hex")\<close>;
  \<^item> \<open>bcrypt_compare candidate hash\<close> is \<^verbatim>\<open>bcrypt.compare\<close>;
  \<^item> \<open>google_verifyIdToken idToken audience\<close> is \<^verbatim>\<open>googleClient.verifyIdToken\<close> followed
    by \<^verbatim>\<open>getPayload()\<close>: \<open>None\<close> when the call throws, \<open>Some None\<close> when the ticket has
    no payload.
\<close>

record env =
  ACCESS_SECRET :: string
  REFRESH_SECRET :: string
  GOOGLE_CLIENT_ID :: string
  jwt_sign :: "jwt_payload \<Rightarrow> string \<Rightarrow> timespan \<Rightarrow> nat \<Rightarrow> string"
  jwt_verify :: "string \<Rightarrow> string \<Rightarrow> nat \<Rightarrow> error + jwt_decoded"
  sha256_hex :: "string \<Rightarrow> string"
  bcrypt_compare :: "string \<Rightarrow> string \<Rightarrow> bool"
  google_verifyIdToken :: "string \<Rightarrow> string \<Rightarrow> google_payload option option"

section \<open>Token utilities (\<^verbatim>\<open>utils/token.ts\<close>)\<close>

definition generateToken :: "env \<Rightarrow> nat \<Rightarrow> user \<Rightarrow> string" where
  "generateToken e now u =
     jwt_sign e \<lparr>payload_id = uid u, payload_email = email u\<rparr> (ACCESS_SECRET e) (Minutes 15) now"

definition generateRefreshToken :: "env \<Rightarrow> nat \<Rightarrow> user \<Rightarrow> string" where
  "generateRefreshToken e now u =
     jwt_sign e \<lparr>payload_id = uid u, payload_email = email u\<rparr> (REFRESH_SECRET e) (Days 7) now"

definition hashToken :: "env \<Rightarrow> string \<Rightarrow> string" where
  "hashToken e token = sha256_hex e token"

definition verifyToken :: "env \<Rightarrow> nat \<Rightarrow> string \<Rightarrow> error + jwt_decoded" where
  "verifyToken e now token = jwt_verify e token (REFRESH_SECRET e) now"

text \<open>JavaScript's \<^verbatim>\<open>!x\<close> on a decoded token: an object is truthy, a string is falsy when empty.\<close>

fun falsy_decoded :: "jwt_decoded \<Rightarrow> bool" where
  "falsy_decoded (PayloadObject _) = False"
| "falsy_decoded (PayloadString s) = (s = [])"

text \<open>\<^verbatim>\<open>!x\<close> on a nullable string: null and the empty string are falsy.\<close>

fun falsy_opt :: "string option \<Rightarrow> bool" where
  "falsy_opt None = True"
| "falsy_opt (Some s) = (s = [])"

text \<open>
  Every row of \<^verbatim>\<open>refresh_tokens\<close> has a device label: the column is neither null nor
  the empty string.
\<close>

definition labelled :: "db \<Rightarrow> bool" where
  "labelled d = list_all (\<lambda>r. \<not> falsy_opt (device r)) (refreshTokens d)"

section \<open>The authentication service (\<^verbatim>\<open>auth.service.ts\<close>)\<close>

text \<open>
  The two defaults for a device label: \<^verbatim>\<open>device || 'Unknown Device'\<close> in
  \<^verbatim>\<open>_generateAuthResponse\<close>, and \<^verbatim>\<open>storedRefreshToken.device || 'Unknown'\<close> in
  \<^verbatim>\<open>refresh\<close>.  The empty string is falsy, and so is the null of the nullable column.
\<close>

definition device_or_unknown_device :: "string \<Rightarrow> string" where
  "device_or_unknown_device dev = (if dev = [] then ''Unknown Device'' else dev)"

definition stored_device_or_unknown :: "string option \<Rightarrow> string" where
  "stored_device_or_unknown dev =
     (case dev of None \<Rightarrow> ''Unknown'' | Some dv \<Rightarrow> if dv = [] then ''Unknown'' else dv)"

record token_response =
  refreshToken :: string
  accessToken :: string

text \<open>
  Every operation takes the database and returns its result with the database it leaves:
  no operation runs in a transaction, so what was written before a throw stays written.
  \<open>now\<close> is the clock of the call (\<^verbatim>\<open>Date.now()\<close>, \<^verbatim>\<open>new Date()\<close>).
\<close>

text \<open>
  \<^verbatim>\<open>_generateAuthResponse\<close>, with the insertion into \<^verbatim>\<open>refresh_tokens\<close> as the parameter
  \<open>ins\<close>: the store may reject it, and then the call throws what the store threw.
\<close>

definition generateAuthResponse_with ::
  "(nat \<Rightarrow> db \<Rightarrow> new_refresh_token \<Rightarrow> error + db) \<Rightarrow> env \<Rightarrow> nat \<Rightarrow> user \<Rightarrow> string \<Rightarrow> db
     \<Rightarrow> (error + token_response) \<times> db" where
  "generateAuthResponse_with ins e now u dev d =
     (let access = generateToken e now u;
          refresh = generateRefreshToken e now u;
          hashedRefreshToken = hashToken e refresh
      in case ins now d \<lparr>new_userId = uid u, new_tokenHash = hashedRefreshToken,
                         new_device = device_or_unknown_device dev,
                         new_expiresAt = now + 7 * 24 * 60 * 60 * 1000\<rparr> of
           Inl err \<Rightarrow> (Inl err, d)
         | Inr d1 \<Rightarrow>
             (Inr \<lparr>refreshToken = refresh, accessToken = access\<rparr>, touch_lastLogin now (uid u) d1))"

definition generateAuthResponse ::
  "env \<Rightarrow> nat \<Rightarrow> user \<Rightarrow> string \<Rightarrow> db \<Rightarrow> (error + token_response) \<times> db" where
  "generateAuthResponse = generateAuthResponse_with insert_refreshToken"

text \<open>\<^verbatim>\<open>login\<close>; the argument \<^verbatim>\<open>data\<close> is its three fields.\<close>

definition login ::
  "env \<Rightarrow> nat \<Rightarrow> string \<Rightarrow> string \<Rightarrow> string \<Rightarrow> db \<Rightarrow> (error + token_response) \<times> db" where
  "login e now data_email data_password data_device d =
     (case select_user_by_email data_email d of
        None \<Rightarrow> (Inl (AppError 404 ''User not found''), d)
      | Some u \<Rightarrow>
          (case password u of
             None \<Rightarrow> (Inl (AppError 400 ''Please login with Google''), d)
           | Some stored_hash \<Rightarrow>
               if stored_hash = [] then (Inl (AppError 400 ''Please login with Google''), d)
               else if \<not> bcrypt_compare e data_password stored_hash
                 then (Inl (AppError 401 ''Invalid password''), d)
               else generateAuthResponse e now u data_device d))"

text \<open>\<^verbatim>\<open>loginWithGoogle\<close>.\<close>

definition loginWithGoogle ::
  "env \<Rightarrow> nat \<Rightarrow> string \<Rightarrow> string \<Rightarrow> db \<Rightarrow> (error + token_response) \<times> db" where
  "loginWithGoogle e now idToken dev d =
     (case google_verifyIdToken e idToken (GOOGLE_CLIENT_ID e) of
        None \<Rightarrow> (Inl (AppError 401 ''Invalid Google Token''), d)
      | Some None \<Rightarrow> (Inl (AppError 400 ''Google account validation failed''), d)
      | Some (Some payload) \<Rightarrow>
          (case g_email payload of
             None \<Rightarrow> (Inl (AppError 400 ''Google account validation failed''), d)
           | Some mail \<Rightarrow>
               if mail = [] then (Inl (AppError 400 ''Google account validation failed''), d)
               else
                 (case select_user_by_email mail d of
                    None \<Rightarrow>
                      (let u = \<lparr>uid = uuid_seq d, email = mail,
                                name = (case g_name payload of
                                          None \<Rightarrow> ''User''
                                        | Some n \<Rightarrow> if n = [] then ''User'' else n),
                                password = None, googleId = Some (g_sub payload),
                                authProvider = Some ''google'', avatar = g_picture payload,
                                lastLoginAt = now, createdAt = now, updatedAt = now\<rparr>
                       in generateAuthResponse e now u dev
                            (d\<lparr>users := users d @ [u], uuid_seq := Suc (uuid_seq d)\<rparr>))
                  | Some u \<Rightarrow>
                      generateAuthResponse e now u dev
                        (if falsy_opt (googleId u) then link_google (uid u) (g_sub payload) d
                         else d))))"

text \<open>
  \<^verbatim>\<open>refresh\<close>, with the same parameter \<open>ins\<close>.  Both deletions are by the \<^verbatim>\<open>id\<close> of
  the row that the query returned.
\<close>

definition refresh_with ::
  "(nat \<Rightarrow> db \<Rightarrow> new_refresh_token \<Rightarrow> error + db) \<Rightarrow> env \<Rightarrow> nat \<Rightarrow> string \<Rightarrow> db
     \<Rightarrow> (error + token_response) \<times> db" where
  "refresh_with ins e now token d =
     (if token = [] then (Inl (AppError 401 ''No token provided''), d)
      else case verifyToken e now token of
        Inl thrown \<Rightarrow> (Inl thrown, d)
      | Inr decodedToken \<Rightarrow>
          if falsy_decoded decodedToken then (Inl (AppError 401 ''Invalid token signature''), d)
          else
            (let incomingTokenHash = hashToken e token in
             case select_refreshToken incomingTokenHash d of
               None \<Rightarrow> (Inl (AppError 401 ''Refresh token reuse detected or invalid''), d)
             | Some stored \<Rightarrow>
                 if now > expiresAt stored
                   then (Inl (AppError 401 ''Refresh token expired''),
                         delete_refreshToken (tid stored) d)
                 else
                   (let d1 = delete_refreshToken (tid stored) d in
                    case select_user_by_id (userId stored) d1 of
                      None \<Rightarrow> (Inl (AppError 404 ''User not found''), d1)
                    | Some u \<Rightarrow>
                        generateAuthResponse_with ins e now u
                          (stored_device_or_unknown (device stored)) d1)))"

definition refresh :: "env \<Rightarrow> nat \<Rightarrow> string \<Rightarrow> db \<Rightarrow> (error + token_response) \<times> db" where
  "refresh = refresh_with insert_refreshToken"

text \<open>\<^verbatim>\<open>logout\<close>: \<open>Inr True\<close> is \<^verbatim>\<open>{ success: true }\<close>.\<close>

definition logout :: "env \<Rightarrow> string \<Rightarrow> db \<Rightarrow> (error + bool) \<times> db" where
  "logout e refreshTokenString d =
     (if refreshTokenString = [] then (Inl (AppError 400 ''Token required''), d)
      else
        (let tokenHashToFind = hashToken e refreshTokenString in
         (Inr True, delete_refreshTokens_by_hash tokenHashToFind d)))"

section \<open>A reference codec and a scenario\<close>

text \<open>
  An executable stand-in for the libraries, used where a statement is evaluated at a
  concrete input.  It keeps what \<^verbatim>\<open>jsonwebtoken\<close> does with time: a token is a function
  of the payload, the secret, \<^verbatim>\<open>expiresIn\<close> and the time of signing in whole seconds
  (\<^verbatim>\<open>iat = floor(Date.now() / 1000)\<close>, \<^verbatim>\<open>exp = iat + expiresIn\<close>), and verification
  throws when the secret differs or when the current second has reached \<^verbatim>\<open>exp\<close>.  A token
  is the text \<open>secret|id|email|iat|expiresIn\<close>, numbers written in unary.
\<close>

fun tally :: "nat \<Rightarrow> string" where
  "tally 0 = []"
| "tally (Suc n) = CHR ''i'' # tally n"

fun split_on :: "char \<Rightarrow> string \<Rightarrow> string list" where
  "split_on c [] = [[]]"
| "split_on c (x # xs) =
     (if x = c then [] # split_on c xs
      else case split_on c xs of
             [] \<Rightarrow> [[x]]
           | w # ws \<Rightarrow> (x # w) # ws)"

fun span_text :: "timespan \<Rightarrow> string" where
  "span_text (Minutes m) = CHR ''m'' # tally m"
| "span_text (Days n) = CHR ''d'' # tally n"

fun span_of_text :: "string \<Rightarrow> timespan option" where
  "span_of_text [] = None"
| "span_of_text (c # n) =
     (if c = CHR ''m'' then Some (Minutes (length n))
      else if c = CHR ''d'' then Some (Days (length n))
      else None)"

definition ref_sign :: "jwt_payload \<Rightarrow> string \<Rightarrow> timespan \<Rightarrow> nat \<Rightarrow> string" where
  "ref_sign p secret span now =
     secret @ ''|'' @ tally (payload_id p) @ ''|'' @ payload_email p @ ''|''
       @ tally (now div 1000) @ ''|'' @ span_text span"

definition ref_verify :: "string \<Rightarrow> string \<Rightarrow> nat \<Rightarrow> error + jwt_decoded" where
  "ref_verify token secret now =
     (case split_on CHR ''|'' token of
        [k, i, m, iat, sp] \<Rightarrow>
          (case span_of_text sp of
             None \<Rightarrow> Inl (ThrownError ''JsonWebTokenError'' ''jwt malformed'')
           | Some span \<Rightarrow>
               if k \<noteq> secret then Inl (ThrownError ''JsonWebTokenError'' ''invalid signature'')
               else if now div 1000 \<ge> length iat + span_seconds span
                 then Inl (ThrownError ''TokenExpiredError'' ''jwt expired'')
               else Inr (PayloadObject \<lparr>payload_id = length i, payload_email = m\<rparr>))
      | _ \<Rightarrow> Inl (ThrownError ''JsonWebTokenError'' ''jwt malformed''))"

definition ref_env :: env where
  "ref_env =
     \<lparr>ACCESS_SECRET = ''access-secret'', REFRESH_SECRET = ''refresh-secret'',
      GOOGLE_CLIENT_ID = ''client-id'',
      jwt_sign = ref_sign, jwt_verify = ref_verify,
      sha256_hex = (\<lambda>t. ''sha256:'' @ t),
      bcrypt_compare = (\<lambda>candidate h. h = ''bcrypt:'' @ candidate),
      google_verifyIdToken = (\<lambda>idToken audience.
        if audience = ''client-id'' \<and> idToken = ''id-token-of-a''
        then Some (Some \<lparr>g_email = Some ''a@x.com'', g_name = Some ''A'',
                           g_sub = ''google-sub-a'', g_picture = None\<rparr>)
        else None)\<rparr>"

text \<open>One registered local account, and no refresh token yet.\<close>

definition alice :: user where
  "alice = \<lparr>uid = 1, email = ''a@x.com'', name = ''A'', password = Some ''bcrypt:pw123456'',
             googleId = None, authProvider = Some ''local'', avatar = None,
             lastLoginAt = 0, createdAt = 0, updatedAt = 0\<rparr>"

definition db0 :: db where
  "db0 = \<lparr>users = [alice], refreshTokens = [], uuid_seq = 2\<rparr>"

text \<open>The first login of that account, at time 5000 (in the fifth second).\<close>

definition session1 :: "(error + token_response) \<times> db" where
  "session1 = login ref_env 5000 ''a@x.com'' ''pw123456'' ''phone'' db0"


text \<open>
  A row of \<^verbatim>\<open>refresh_tokens\<close> for the refresh token that the reference codec signs for
  that account in the fifth second, with no device label (the column is nullable), and
  the database that holds it.
\<close>

definition unlabelled_row :: refresh_token where
  "unlabelled_row =
     \<lparr>tid = 2, userId = 1, tokenHash = ''sha256:refresh-secret|i|a@x.com|iiiii|diiiiiii'',
      device = None, expiresAt = 604805000, revoked = False, issuedAt = 5000\<rparr>"

definition unlabelled_db :: db where
  "unlabelled_db = \<lparr>users = [alice], refreshTokens = [unlabelled_row], uuid_seq = 3\<rparr>"

text \<open>A database whose only token row belongs to no user.\<close>

definition orphan_db :: db where
  "orphan_db = \<lparr>users = [], refreshTokens = [unlabelled_row], uuid_seq = 3\<rparr>"

text \<open>The account already linked to its Google subject.\<close>

definition linked_db :: db where
  "linked_db =
     \<lparr>users = [alice\<lparr>googleId := Some ''google-sub-a'', authProvider := Some ''google''\<rparr>],
      refreshTokens = [], uuid_seq = 2\<rparr>"

text \<open>A store that rejects every insertion into \<^verbatim>\<open>refresh_tokens\<close>.\<close>

definition failing_insert :: "nat \<Rightarrow> db \<Rightarrow> new_refresh_token \<Rightarrow> error + db" where
  "failing_insert now d v = Inl (DbError ''57P01'')"

section \<open>Evaluation and shared lemmas\<close>

lemma tally_numeral [simp]: "tally (numeral k) = CHR ''i'' # tally (pred_numeral k)"
  by (simp add: numeral_eq_Suc)

lemmas service_defs = login_def generateAuthResponse_def generateAuthResponse_with_def
  insert_refreshToken_def touch_lastLogin_def generateToken_def generateRefreshToken_def
  hashToken_def verifyToken_def refresh_def refresh_with_def delete_refreshToken_def
  select_user_by_email_def select_user_by_id_def select_refreshToken_def
  device_or_unknown_device_def stored_device_or_unknown_def Let_def

lemmas scenario_defs = ref_env_def ref_sign_def ref_verify_def alice_def db0_def

text \<open>What \<^verbatim>\<open>_generateAuthResponse\<close> returns and leaves, on the store as declared.\<close>

lemma generateAuthResponse_result:
  "generateAuthResponse e now u dev d =
     (Inr \<lparr>refreshToken = generateRefreshToken e now u, accessToken = generateToken e now u\<rparr>,
      \<lparr>users = map (\<lambda>x. if uid x = uid u then x\<lparr>lastLoginAt := now\<rparr> else x) (users d),
       refreshTokens = refreshTokens d @
         [\<lparr>tid = uuid_seq d, userId = uid u,
           tokenHash = hashToken e (generateRefreshToken e now u),
           device = Some (device_or_unknown_device dev),
           expiresAt = now + 604800000, revoked = False, issuedAt = now\<rparr>],
       uuid_seq = Suc (uuid_seq d)\<rparr>)"
  by (simp add: generateAuthResponse_def generateAuthResponse_with_def insert_refreshToken_def
      touch_lastLogin_def Let_def)

lemma users_generateAuthResponse:
  "users (snd (generateAuthResponse e now u dev d)) =
     map (\<lambda>x. if uid x = uid u then x\<lparr>lastLoginAt := now\<rparr> else x) (users d)"
  by (simp add: generateAuthResponse_result)

lemma at_most_one: "length zs \<le> 1 \<Longrightarrow> a \<in> set zs \<Longrightarrow> b \<in> set zs \<Longrightarrow> a = b"
  by (cases zs) auto

text \<open>
  When a fingerprint has at most one live record, deleting the record that the query
  returned leaves the query without a match.
\<close>

lemma select_after_delete:
  assumes "select_refreshToken h d = Some stored" and "length (live_records h d) \<le> 1"
  shows "select_refreshToken h (delete_refreshToken (tid stored) d) = None"
proof -
  let ?P = "\<lambda>r. tokenHash r = h \<and> revoked r = False"
  from assms(1) have in_live: "stored \<in> set (live_records h d)"
    by (auto simp: select_refreshToken_def live_records_def find_Some_iff)
  have "\<not> ?P y" if "y \<in> set (refreshTokens d)" "tid y \<noteq> tid stored" for y
  proof
    assume "?P y"
    with that have "y \<in> set (live_records h d)" by (simp add: live_records_def)
    with in_live assms(2) have "y = stored" by (rule at_most_one[rotated 2])
    with that show False by simp
  qed
  then show ?thesis
    by (auto simp: select_refreshToken_def delete_refreshToken_def find_None_iff)
qed

text \<open>The first login of the scenario, evaluated.\<close>

lemma session1_eq:
  "session1 =
     (Inr \<lparr>refreshToken = ''refresh-secret|i|a@x.com|iiiii|diiiiiii'',
           accessToken = ''access-secret|i|a@x.com|iiiii|miiiiiiiiiiiiiii''\<rparr>,
      \<lparr>users = [alice\<lparr>lastLoginAt := 5000\<rparr>],
       refreshTokens =
         [\<lparr>tid = 2, userId = 1,
           tokenHash = ''sha256:refresh-secret|i|a@x.com|iiiii|diiiiiii'',
           device = Some ''phone'', expiresAt = 604805000, revoked = False, issuedAt = 5000\<rparr>],
       uuid_seq = 3\<rparr>)"
  by (simp add: session1_def service_defs scenario_defs)

section \<open>Refresh tokens are used once (C1)\<close>

text \<open>
  C1 fails on the code.  \<^verbatim>\<open>refresh\<close> deletes the record it matched and then stores the
  record of the replacement, but the replacement is signed over the same payload with the
  same secret and no token id, so within the second in which a token was signed the
  replacement is that token again.  The account logs in at time 5000 and refreshes at time
  5400: the call succeeds and returns the token it consumed, and the record stored for it
  carries the consumed fingerprint.  A second refresh with the same token at time 5800
  succeeds as well, where C1 says it is refused with \<open>RefreshReuseOrInvalid\<close>.
\<close>

theorem refresh_replay_within_second:
  "fst session1 =
     Inr \<lparr>refreshToken = ''refresh-secret|i|a@x.com|iiiii|diiiiiii'',
          accessToken = ''access-secret|i|a@x.com|iiiii|miiiiiiiiiiiiiii''\<rparr>
   \<and> fst (refresh ref_env 5400 ''refresh-secret|i|a@x.com|iiiii|diiiiiii'' (snd session1)) =
     Inr \<lparr>refreshToken = ''refresh-secret|i|a@x.com|iiiii|diiiiiii'',
          accessToken = ''access-secret|i|a@x.com|iiiii|miiiiiiiiiiiiiii''\<rparr>
   \<and> refreshTokens
         (snd (refresh ref_env 5400 ''refresh-secret|i|a@x.com|iiiii|diiiiiii'' (snd session1))) =
       [\<lparr>tid = 3, userId = 1,
         tokenHash = ''sha256:refresh-secret|i|a@x.com|iiiii|diiiiiii'',
         device = Some ''phone'', expiresAt = 604805400, revoked = False, issuedAt = 5400\<rparr>]
   \<and> fst (refresh ref_env 5800 ''refresh-secret|i|a@x.com|iiiii|diiiiiii''
          (snd (refresh ref_env 5400 ''refresh-secret|i|a@x.com|iiiii|diiiiiii'' (snd session1)))) =
     Inr \<lparr>refreshToken = ''refresh-secret|i|a@x.com|iiiii|diiiiiii'',
          accessToken = ''access-secret|i|a@x.com|iiiii|miiiiiiiiiiiiiii''\<rparr>
   \<and> fst (refresh ref_env 5800 ''refresh-secret|i|a@x.com|iiiii|diiiiiii''
          (snd (refresh ref_env 5400 ''refresh-secret|i|a@x.com|iiiii|diiiiiii'' (snd session1))))
     \<noteq> Inl RefreshReuseOrInvalid"
  by (simp add: session1_eq service_defs scenario_defs)

section \<open>Refresh of an expired record (C2)\<close>

text \<open>
  C2 fails on the code.  \<^verbatim>\<open>refresh\<close> verifies the token before it reads the table, and
  the token runs out no later than its record: it is signed in second 5 for 604800
  seconds, and its record runs out at time 604805000.  One millisecond after that the
  record of the first login is in the table, live and out of date, but \<^verbatim>\<open>jwt.verify\<close>
  throws: the call ends with the library's error, which the error middleware answers with
  status 500, the record stays in the table, and the branch that throws
  \<open>RefreshExpired\<close> and deletes the record is not reached.
\<close>

theorem refresh_after_expiry_throws:
  "select_refreshToken (hashToken ref_env ''refresh-secret|i|a@x.com|iiiii|diiiiiii'')
       (snd session1) =
     Some \<lparr>tid = 2, userId = 1,
           tokenHash = ''sha256:refresh-secret|i|a@x.com|iiiii|diiiiiii'',
           device = Some ''phone'', expiresAt = 604805000, revoked = False, issuedAt = 5000\<rparr>
   \<and> (604805000::nat) < 604805001
   \<and> refresh ref_env 604805001 ''refresh-secret|i|a@x.com|iiiii|diiiiiii'' (snd session1) =
       (Inl (ThrownError ''TokenExpiredError'' ''jwt expired''), snd session1)
   \<and> fst (refresh ref_env 604805001 ''refresh-secret|i|a@x.com|iiiii|diiiiiii'' (snd session1))
       \<noteq> Inl RefreshExpired
   \<and> errorHandler (ThrownError ''TokenExpiredError'' ''jwt expired'') = (500, ''jwt expired'')"
  by (simp add: session1_eq service_defs scenario_defs RefreshExpired_def errorHandler_def)

section \<open>Logout (C3)\<close>

text \<open>
  C3, as the code has it.  For every non-empty string, \<^verbatim>\<open>logout\<close> reports success,
  whether or not a record matched: it deletes every record with the fingerprint of the
  string, leaves no live record of it, and a second logout with the same string reports
  success again and changes nothing.
\<close>

theorem logout_succeeds:
  "refreshTokenString \<noteq> [] \<Longrightarrow>
     logout e refreshTokenString d =
       (Inr True, delete_refreshTokens_by_hash (hashToken e refreshTokenString) d)
     \<and> select_refreshToken (hashToken e refreshTokenString)
         (snd (logout e refreshTokenString d)) = None
     \<and> logout e refreshTokenString (snd (logout e refreshTokenString d)) =
         (Inr True, snd (logout e refreshTokenString d))"
  by (simp add: logout_def Let_def delete_refreshTokens_by_hash_def select_refreshToken_def
      find_None_iff)

text \<open>A token that was never issued: success, and the database is as it was.\<close>

theorem logout_succeeds_witness:
  "''never-issued'' \<noteq> [] \<and>
   logout ref_env ''never-issued'' db0 = (Inr True, db0)"
  using logout_succeeds [of "''never-issued''" ref_env db0]
  by (simp add: delete_refreshTokens_by_hash_def db0_def)

text \<open>The empty string is refused by the guard of \<^verbatim>\<open>logout\<close>.\<close>

theorem logout_empty_counterexample:
  "logout ref_env [] db0 = (Inl (AppError 400 ''Token required''), db0)"
  by (simp add: logout_def)

section \<open>A token that does not verify (C4)\<close>

text \<open>
  C4 fails on the code.  When \<^verbatim>\<open>jwt.verify\<close> throws its error (an \<^verbatim>\<open>Error\<close> that is
  no \<^verbatim>\<open>AppError\<close> and has no \<^verbatim>\<open>code\<close>), \<^verbatim>\<open>refresh\<close> passes it on as it is: the line
  that throws \<^verbatim>\<open>AppError(401, 'Invalid token signature')\<close> is not reached, and the error
  middleware answers with status 500 and the library's message.
\<close>

theorem refresh_verify_error_unhandled:
  "token \<noteq> [] \<Longrightarrow> verifyToken e now token = Inl (ThrownError nm msg) \<Longrightarrow>
     refresh e now token d = (Inl (ThrownError nm msg), d)
     \<and> errorHandler (ThrownError nm msg) = (500, msg)"
  by (simp add: refresh_def refresh_with_def errorHandler_def)

text \<open>A token signed with another secret.\<close>

theorem refresh_verify_error_unhandled_witness:
  "''wrong-secret|i|a@x.com|iiiii|diiiiiii'' \<noteq> []
   \<and> verifyToken ref_env 5400 ''wrong-secret|i|a@x.com|iiiii|diiiiiii'' =
       Inl (ThrownError ''JsonWebTokenError'' ''invalid signature'')
   \<and> refresh ref_env 5400 ''wrong-secret|i|a@x.com|iiiii|diiiiiii'' db0 =
       (Inl (ThrownError ''JsonWebTokenError'' ''invalid signature''), db0)
   \<and> errorHandler (ThrownError ''JsonWebTokenError'' ''invalid signature'') =
       (500, ''invalid signature'')"
proof -
  have v: "verifyToken ref_env 5400 ''wrong-secret|i|a@x.com|iiiii|diiiiiii'' =
       Inl (ThrownError ''JsonWebTokenError'' ''invalid signature'')"
    by (simp add: verifyToken_def scenario_defs)
  show ?thesis
    using refresh_verify_error_unhandled [OF _ v, of db0] v by simp
qed

section \<open>The order of the checks of login (C5)\<close>

text \<open>
  C5.  \<^verbatim>\<open>login\<close> fails with \<open>NotFound\<close> when no user has the email; otherwise with
  \<open>WrongAuthMethod\<close> when the user has no password hash; otherwise with
  \<open>InvalidCredentials\<close> when the password does not match the hash; otherwise it succeeds
  and returns the pair signed at the time of the call.  A failure leaves the database as
  it was.
\<close>

theorem login_precedence:
  "(select_user_by_email m d = None \<longrightarrow> login e now m pw dev d = (Inl NotFound, d))
   \<and> (select_user_by_email m d = Some u \<and> falsy_opt (password u)
        \<longrightarrow> login e now m pw dev d = (Inl WrongAuthMethod, d))
   \<and> (select_user_by_email m d = Some u \<and> password u = Some h \<and> h \<noteq> []
          \<and> \<not> bcrypt_compare e pw h
        \<longrightarrow> login e now m pw dev d = (Inl InvalidCredentials, d))
   \<and> (select_user_by_email m d = Some u \<and> password u = Some h \<and> h \<noteq> []
          \<and> bcrypt_compare e pw h
        \<longrightarrow> fst (login e now m pw dev d) =
              Inr \<lparr>refreshToken = generateRefreshToken e now u,
                   accessToken = generateToken e now u\<rparr>)"
  by (cases "password u")
     (simp_all add: login_def NotFound_def WrongAuthMethod_def InvalidCredentials_def
        generateAuthResponse_result)

text \<open>One input for each of the four cases.\<close>

theorem login_precedence_witness:
  "select_user_by_email ''b@x.com'' db0 = None
   \<and> login ref_env 5000 ''b@x.com'' ''pw123456'' ''phone'' db0 = (Inl NotFound, db0)
   \<and> select_user_by_email ''a@x.com'' (db0\<lparr>users := [alice\<lparr>password := None\<rparr>]\<rparr>)
       = Some (alice\<lparr>password := None\<rparr>)
   \<and> falsy_opt (password (alice\<lparr>password := None\<rparr>))
   \<and> login ref_env 5000 ''a@x.com'' ''pw123456'' ''phone''
         (db0\<lparr>users := [alice\<lparr>password := None\<rparr>]\<rparr>)
       = (Inl WrongAuthMethod, db0\<lparr>users := [alice\<lparr>password := None\<rparr>]\<rparr>)
   \<and> select_user_by_email ''a@x.com'' db0 = Some alice
   \<and> password alice = Some ''bcrypt:pw123456'' \<and> ''bcrypt:pw123456'' \<noteq> []
   \<and> \<not> bcrypt_compare ref_env ''wrong'' ''bcrypt:pw123456''
   \<and> login ref_env 5000 ''a@x.com'' ''wrong'' ''phone'' db0 = (Inl InvalidCredentials, db0)
   \<and> bcrypt_compare ref_env ''pw123456'' ''bcrypt:pw123456''
   \<and> fst (login ref_env 5000 ''a@x.com'' ''pw123456'' ''phone'' db0) =
         Inr \<lparr>refreshToken = ''refresh-secret|i|a@x.com|iiiii|diiiiiii'',
              accessToken = ''access-secret|i|a@x.com|iiiii|miiiiiiiiiiiiiii''\<rparr>"
proof -
  have s0: "select_user_by_email ''b@x.com'' db0 = None"
    by (simp add: select_user_by_email_def db0_def alice_def)
  have s1: "select_user_by_email ''a@x.com'' (db0\<lparr>users := [alice\<lparr>password := None\<rparr>]\<rparr>)
       = Some (alice\<lparr>password := None\<rparr>)"
    by (simp add: select_user_by_email_def db0_def alice_def)
  have f1: "falsy_opt (password (alice\<lparr>password := None\<rparr>))"
    by simp
  have s2: "select_user_by_email ''a@x.com'' db0 = Some alice"
    by (simp add: select_user_by_email_def db0_def alice_def)
  have p2: "password alice = Some ''bcrypt:pw123456''" "''bcrypt:pw123456'' \<noteq> []"
    by (simp_all add: alice_def)
  have c3: "\<not> bcrypt_compare ref_env ''wrong'' ''bcrypt:pw123456''"
    by (simp add: ref_env_def)
  have c4: "bcrypt_compare ref_env ''pw123456'' ''bcrypt:pw123456''"
    by (simp add: ref_env_def)
  have t: "generateRefreshToken ref_env 5000 alice = ''refresh-secret|i|a@x.com|iiiii|diiiiiii''"
     "generateToken ref_env 5000 alice = ''access-secret|i|a@x.com|iiiii|miiiiiiiiiiiiiii''"
    by (simp_all add: generateRefreshToken_def generateToken_def scenario_defs)
  from login_precedence [of "''b@x.com''" db0 ref_env 5000 "''pw123456''" "''phone''"] s0
  have r0: "login ref_env 5000 ''b@x.com'' ''pw123456'' ''phone'' db0 = (Inl NotFound, db0)"
    by simp
  from login_precedence [of "''a@x.com''" "db0\<lparr>users := [alice\<lparr>password := None\<rparr>]\<rparr>"
      ref_env 5000 "''pw123456''" "''phone''" "alice\<lparr>password := None\<rparr>"] s1 f1
  have r1: "login ref_env 5000 ''a@x.com'' ''pw123456'' ''phone''
         (db0\<lparr>users := [alice\<lparr>password := None\<rparr>]\<rparr>)
       = (Inl WrongAuthMethod, db0\<lparr>users := [alice\<lparr>password := None\<rparr>]\<rparr>)"
    by simp
  from login_precedence [of "''a@x.com''" db0 ref_env 5000 "''wrong''" "''phone''" alice
      "''bcrypt:pw123456''"] s2 p2 c3
  have r2: "login ref_env 5000 ''a@x.com'' ''wrong'' ''phone'' db0 = (Inl InvalidCredentials, db0)"
    by simp
  from login_precedence [of "''a@x.com''" db0 ref_env 5000 "''pw123456''" "''phone''" alice
      "''bcrypt:pw123456''"] s2 p2 c4 t
  have r3: "fst (login ref_env 5000 ''a@x.com'' ''pw123456'' ''phone'' db0) =
         Inr \<lparr>refreshToken = ''refresh-secret|i|a@x.com|iiiii|diiiiiii'',
              accessToken = ''access-secret|i|a@x.com|iiiii|miiiiiiiiiiiiiii''\<rparr>"
    by simp
  from s0 r0 s1 f1 r1 s2 p2 c3 r2 c4 r3 show ?thesis by blast
qed

section \<open>What a federated login changes in the user (C6)\<close>

text \<open>
  C6, as the code has it.  When the email of the verified Google payload is the email of
  a user, \<^verbatim>\<open>loginWithGoogle\<close> changes the rows of \<^verbatim>\<open>users\<close> with that user's id and
  no other row.  Is the user not linked yet (\<^verbatim>\<open>googleId\<close> null or empty), then
  \<^verbatim>\<open>googleId\<close> becomes the subject id, \<^verbatim>\<open>authProvider\<close> becomes \<^verbatim>\<open>'google'\<close> and
  \<^verbatim>\<open>lastLoginAt\<close> the time of the call; is the user linked, then only \<^verbatim>\<open>lastLoginAt\<close>
  changes.  Every other column, the password hash among them, is as before.
\<close>

theorem federated_login_frame:
  assumes "google_verifyIdToken e idToken (GOOGLE_CLIENT_ID e) = Some (Some p)"
    and "g_email p = Some mail" and "mail \<noteq> []"
    and "select_user_by_email mail d = Some u"
  shows "(falsy_opt (googleId u) \<longrightarrow>
            users (snd (loginWithGoogle e now idToken dev d)) =
              map (\<lambda>x. if uid x = uid u
                        then x\<lparr>googleId := Some (g_sub p), authProvider := Some ''google'',
                               lastLoginAt := now\<rparr>
                        else x) (users d))
    \<and> (\<not> falsy_opt (googleId u) \<longrightarrow>
            users (snd (loginWithGoogle e now idToken dev d)) =
              map (\<lambda>x. if uid x = uid u then x\<lparr>lastLoginAt := now\<rparr> else x) (users d))
    \<and> map password (users (snd (loginWithGoogle e now idToken dev d))) =
        map password (users d)"
  using assms
  by (simp add: loginWithGoogle_def users_generateAuthResponse link_google_def comp_def
      cong: if_cong)

text \<open>The local account of the scenario, not linked and linked.\<close>

theorem federated_login_frame_witness:
  "google_verifyIdToken ref_env ''id-token-of-a'' (GOOGLE_CLIENT_ID ref_env) =
     Some (Some \<lparr>g_email = Some ''a@x.com'', g_name = Some ''A'', g_sub = ''google-sub-a'',
                 g_picture = None\<rparr>)
   \<and> ''a@x.com'' \<noteq> []
   \<and> select_user_by_email ''a@x.com'' db0 = Some alice
   \<and> falsy_opt (googleId alice)
   \<and> users (snd (loginWithGoogle ref_env 5000 ''id-token-of-a'' ''phone'' db0)) =
       [alice\<lparr>googleId := Some ''google-sub-a'', authProvider := Some ''google'',
              lastLoginAt := 5000\<rparr>]
   \<and> select_user_by_email ''a@x.com'' linked_db =
       Some (alice\<lparr>googleId := Some ''google-sub-a'', authProvider := Some ''google''\<rparr>)
   \<and> \<not> falsy_opt (googleId (alice\<lparr>googleId := Some ''google-sub-a'',
                                      authProvider := Some ''google''\<rparr>))
   \<and> users (snd (loginWithGoogle ref_env 5000 ''id-token-of-a'' ''phone'' linked_db)) =
       [alice\<lparr>googleId := Some ''google-sub-a'', authProvider := Some ''google'',
              lastLoginAt := 5000\<rparr>]
   \<and> map password (users (snd (loginWithGoogle ref_env 5000 ''id-token-of-a'' ''phone'' db0))) =
       [Some ''bcrypt:pw123456'']"
proof -
  let ?p = "\<lparr>g_email = Some ''a@x.com'', g_name = Some ''A'', g_sub = ''google-sub-a'',
                 g_picture = None\<rparr>"
  let ?linked = "alice\<lparr>googleId := Some ''google-sub-a'', authProvider := Some ''google''\<rparr>"
  have g: "google_verifyIdToken ref_env ''id-token-of-a'' (GOOGLE_CLIENT_ID ref_env) =
     Some (Some ?p)"
    by (simp add: ref_env_def)
  have m: "g_email ?p = Some ''a@x.com''" "''a@x.com'' \<noteq> []" by simp_all
  have s0: "select_user_by_email ''a@x.com'' db0 = Some alice"
    by (simp add: select_user_by_email_def db0_def alice_def)
  have s1: "select_user_by_email ''a@x.com'' linked_db = Some ?linked"
    by (simp add: select_user_by_email_def linked_db_def alice_def)
  have f0: "falsy_opt (googleId alice)" by (simp add: alice_def)
  have f1: "\<not> falsy_opt (googleId ?linked)" by simp
  from federated_login_frame [OF g m s0, of 5000 "''phone''"] f0
  have r0: "users (snd (loginWithGoogle ref_env 5000 ''id-token-of-a'' ''phone'' db0)) =
       [alice\<lparr>googleId := Some ''google-sub-a'', authProvider := Some ''google'',
              lastLoginAt := 5000\<rparr>]"
    and p0: "map password (users (snd (loginWithGoogle ref_env 5000 ''id-token-of-a'' ''phone'' db0))) =
       [Some ''bcrypt:pw123456'']"
    by (simp_all add: db0_def alice_def)
  from federated_login_frame [OF g m s1, of 5000 "''phone''"] f1
  have r1: "users (snd (loginWithGoogle ref_env 5000 ''id-token-of-a'' ''phone'' linked_db)) =
       [alice\<lparr>googleId := Some ''google-sub-a'', authProvider := Some ''google'',
              lastLoginAt := 5000\<rparr>]"
    by (simp add: linked_db_def alice_def)
  from g m(2) s0 f0 r0 s1 f1 r1 p0 show ?thesis by simp
qed

text \<open>
  A federated login of the linked account does change the user: the shared tail sets
  \<^verbatim>\<open>lastLoginAt\<close>.
\<close>

theorem federated_login_frame_counterexample:
  "select_user_by_email ''a@x.com'' linked_db =
     Some (alice\<lparr>googleId := Some ''google-sub-a'', authProvider := Some ''google''\<rparr>)
   \<and> users (snd (loginWithGoogle ref_env 5000 ''id-token-of-a'' ''phone'' linked_db)) =
       [alice\<lparr>googleId := Some ''google-sub-a'', authProvider := Some ''google'',
              lastLoginAt := 5000\<rparr>]
   \<and> users (snd (loginWithGoogle ref_env 5000 ''id-token-of-a'' ''phone'' linked_db)) \<noteq>
       users linked_db"
  by (simp add: loginWithGoogle_def link_google_def linked_db_def service_defs scenario_defs)

section \<open>Storing a record whose fingerprint is stored already (C7)\<close>

text \<open>
  C7, as the code has it.  Storing the record of a new pair never fails: the table grows
  by one row, and the fingerprint of the new refresh token has one live record more than
  before, whether or not it had one.  The fingerprints of the table are pairwise distinct
  afterwards exactly when they were before and the new fingerprint was not among them.
\<close>

theorem store_accepts_duplicate_fingerprint:
  "fst (generateAuthResponse e now u dev d) =
     Inr \<lparr>refreshToken = generateRefreshToken e now u, accessToken = generateToken e now u\<rparr>
   \<and> length (refreshTokens (snd (generateAuthResponse e now u dev d))) =
       Suc (length (refreshTokens d))
   \<and> length (live_records (hashToken e (generateRefreshToken e now u))
         (snd (generateAuthResponse e now u dev d))) =
       Suc (length (live_records (hashToken e (generateRefreshToken e now u)) d))
   \<and> distinct (map tokenHash (refreshTokens (snd (generateAuthResponse e now u dev d)))) =
       (distinct (map tokenHash (refreshTokens d))
        \<and> hashToken e (generateRefreshToken e now u) \<notin> tokenHash ` set (refreshTokens d))"
  by (auto simp: generateAuthResponse_result live_records_def)

text \<open>
  Two logins of the account in the same second are signed the same refresh token.  The
  second login succeeds, and the table holds two live records with one fingerprint.
\<close>

theorem store_accepts_duplicate_fingerprint_counterexample:
  "fst (login ref_env 5400 ''a@x.com'' ''pw123456'' ''laptop'' (snd session1)) =
     Inr \<lparr>refreshToken = ''refresh-secret|i|a@x.com|iiiii|diiiiiii'',
          accessToken = ''access-secret|i|a@x.com|iiiii|miiiiiiiiiiiiiii''\<rparr>
   \<and> refreshTokens (snd (login ref_env 5400 ''a@x.com'' ''pw123456'' ''laptop'' (snd session1))) =
       [\<lparr>tid = 2, userId = 1,
         tokenHash = ''sha256:refresh-secret|i|a@x.com|iiiii|diiiiiii'',
         device = Some ''phone'', expiresAt = 604805000, revoked = False, issuedAt = 5000\<rparr>,
        \<lparr>tid = 3, userId = 1,
         tokenHash = ''sha256:refresh-secret|i|a@x.com|iiiii|diiiiiii'',
         device = Some ''laptop'', expiresAt = 604805400, revoked = False, issuedAt = 5400\<rparr>]"
  by (simp add: session1_eq service_defs scenario_defs)

section \<open>Secrets and lifetimes of an issued pair (C8)\<close>

text \<open>
  C8.  Every pair that \<^verbatim>\<open>_generateAuthResponse\<close> issues has an access token signed with
  \<^verbatim>\<open>ACCESS_SECRET\<close> for fifteen minutes and a refresh token signed with
  \<^verbatim>\<open>REFRESH_SECRET\<close> for seven days, both over the user's id and email, and the record
  stored for it carries the fingerprint of the refresh token and an \<^verbatim>\<open>expiresAt\<close> seven
  days (in milliseconds) after the time of the call.
\<close>

theorem issued_pair_secrets_and_lifetimes:
  "fst (generateAuthResponse e now u dev d) =
     Inr \<lparr>refreshToken =
            jwt_sign e \<lparr>payload_id = uid u, payload_email = email u\<rparr> (REFRESH_SECRET e) (Days 7) now,
          accessToken =
            jwt_sign e \<lparr>payload_id = uid u, payload_email = email u\<rparr> (ACCESS_SECRET e) (Minutes 15) now\<rparr>
   \<and> span_seconds (Minutes 15) = 15 * 60
   \<and> span_seconds (Days 7) = 7 * 24 * 60 * 60
   \<and> refreshTokens (snd (generateAuthResponse e now u dev d)) =
       refreshTokens d @
         [\<lparr>tid = uuid_seq d, userId = uid u,
           tokenHash = sha256_hex e
             (jwt_sign e \<lparr>payload_id = uid u, payload_email = email u\<rparr> (REFRESH_SECRET e) (Days 7) now),
           device = Some (device_or_unknown_device dev),
           expiresAt = now + 7 * 24 * 60 * 60 * 1000, revoked = False, issuedAt = now\<rparr>]"
  by (simp add: generateAuthResponse_result generateRefreshToken_def generateToken_def
      hashToken_def)

section \<open>The device label of the replacement record (C9)\<close>

text \<open>
  The only insertion into \<^verbatim>\<open>refresh_tokens\<close> writes \<^verbatim>\<open>device || 'Unknown Device'\<close>, and
  nothing updates a row: a table in which every row has a label stays so under every
  operation of the service, and the empty table is one.
\<close>

lemma labelled_empty: "refreshTokens d = [] \<Longrightarrow> labelled d"
  by (simp add: labelled_def)

lemma labelled_generateAuthResponse:
  "labelled d \<Longrightarrow> labelled (snd (generateAuthResponse e now u dev d))"
  by (simp add: labelled_def generateAuthResponse_result device_or_unknown_device_def)


lemma labelled_login: "labelled d \<Longrightarrow> labelled (snd (login e now m pw dev d))"
  by (simp add: login_def labelled_generateAuthResponse split: option.splits)

lemma labelled_loginWithGoogle:
  "labelled d \<Longrightarrow> labelled (snd (loginWithGoogle e now idToken dev d))"
  by (auto simp: loginWithGoogle_def Let_def link_google_def labelled_def
      generateAuthResponse_result device_or_unknown_device_def split: option.splits)


lemma labelled_logout: "labelled d \<Longrightarrow> labelled (snd (logout e token d))"
  by (simp add: logout_def Let_def labelled_def delete_refreshTokens_by_hash_def list_all_iff)



section \<open>The record is consumed before the later steps (C10)\<close>

text \<open>
  C10.  A refresh that has passed the checks on the token and found a record that has not
  run out deletes the record first.  When no user has the record's \<^verbatim>\<open>userId\<close> the call
  fails with \<open>NotFound\<close>; when the store rejects the new record the call fails with the
  store's error; and whenever the call fails, the database it leaves is the one after the
  deletion: no pair is returned, the users are untouched, the consumed record is not in
  the table, and when its fingerprint had no other live record the token matches none.
\<close>

theorem refresh_consumes_before_later_failure:
  assumes "token \<noteq> []"
    and "verifyToken e now token = Inr dec" and "\<not> falsy_decoded dec"
    and "select_refreshToken (hashToken e token) d = Some stored"
    and "\<not> expiresAt stored < now"
  shows "(select_user_by_id (userId stored) (delete_refreshToken (tid stored) d) = None \<longrightarrow>
            refresh_with ins e now token d = (Inl NotFound, delete_refreshToken (tid stored) d))
    \<and> (select_user_by_id (userId stored) (delete_refreshToken (tid stored) d) = Some u
        \<and> ins now (delete_refreshToken (tid stored) d)
             \<lparr>new_userId = uid u, new_tokenHash = hashToken e (generateRefreshToken e now u),
              new_device = device_or_unknown_device (stored_device_or_unknown (device stored)),
              new_expiresAt = now + 7 * 24 * 60 * 60 * 1000\<rparr> = Inl err \<longrightarrow>
            refresh_with ins e now token d = (Inl err, delete_refreshToken (tid stored) d))
    \<and> (fst (refresh_with ins e now token d) = Inl err' \<longrightarrow>
            snd (refresh_with ins e now token d) = delete_refreshToken (tid stored) d)
    \<and> stored \<notin> set (refreshTokens (delete_refreshToken (tid stored) d))
    \<and> users (delete_refreshToken (tid stored) d) = users d
    \<and> (length (live_records (hashToken e token) d) \<le> 1 \<longrightarrow>
          select_refreshToken (hashToken e token) (delete_refreshToken (tid stored) d) = None)"
proof -
  have "(select_user_by_id (userId stored) (delete_refreshToken (tid stored) d) = None \<longrightarrow>
            refresh_with ins e now token d = (Inl NotFound, delete_refreshToken (tid stored) d))
    \<and> (select_user_by_id (userId stored) (delete_refreshToken (tid stored) d) = Some u
        \<and> ins now (delete_refreshToken (tid stored) d)
             \<lparr>new_userId = uid u, new_tokenHash = hashToken e (generateRefreshToken e now u),
              new_device = device_or_unknown_device (stored_device_or_unknown (device stored)),
              new_expiresAt = now + 7 * 24 * 60 * 60 * 1000\<rparr> = Inl err \<longrightarrow>
            refresh_with ins e now token d = (Inl err, delete_refreshToken (tid stored) d))
    \<and> (fst (refresh_with ins e now token d) = Inl err' \<longrightarrow>
            snd (refresh_with ins e now token d) = delete_refreshToken (tid stored) d)
    \<and> stored \<notin> set (refreshTokens (delete_refreshToken (tid stored) d))
    \<and> users (delete_refreshToken (tid stored) d) = users d"
    using assms
    by (auto simp: refresh_with_def generateAuthResponse_with_def Let_def NotFound_def
        delete_refreshToken_def split: option.splits sum.splits)
  with select_after_delete [OF assms(4)] show ?thesis by blast
qed

text \<open>
  A record of no user: \<open>NotFound\<close>, and the record is gone.  A store that rejects the
  insertion: the store's error, and the record is gone.
\<close>

theorem refresh_consumes_before_later_failure_witness:
  "''refresh-secret|i|a@x.com|iiiii|diiiiiii'' \<noteq> []
   \<and> verifyToken ref_env 7000 ''refresh-secret|i|a@x.com|iiiii|diiiiiii'' =
       Inr (PayloadObject \<lparr>payload_id = 1, payload_email = ''a@x.com''\<rparr>)
   \<and> select_refreshToken (hashToken ref_env ''refresh-secret|i|a@x.com|iiiii|diiiiiii'') orphan_db =
       Some unlabelled_row
   \<and> \<not> expiresAt unlabelled_row < 7000
   \<and> select_user_by_id (userId unlabelled_row) (orphan_db\<lparr>refreshTokens := []\<rparr>) = None
   \<and> refresh_with insert_refreshToken ref_env 7000 ''refresh-secret|i|a@x.com|iiiii|diiiiiii''
         orphan_db = (Inl NotFound, orphan_db\<lparr>refreshTokens := []\<rparr>)
   \<and> select_refreshToken (hashToken ref_env ''refresh-secret|i|a@x.com|iiiii|diiiiiii'')
         unlabelled_db = Some unlabelled_row
   \<and> select_user_by_id (userId unlabelled_row) (unlabelled_db\<lparr>refreshTokens := []\<rparr>) = Some alice
   \<and> failing_insert 7000 (unlabelled_db\<lparr>refreshTokens := []\<rparr>)
         \<lparr>new_userId = 1, new_tokenHash = ''sha256:refresh-secret|i|a@x.com|iiiiiii|diiiiiii'',
          new_device = ''Unknown'', new_expiresAt = 604807000\<rparr> = Inl (DbError ''57P01'')
   \<and> refresh_with failing_insert ref_env 7000 ''refresh-secret|i|a@x.com|iiiii|diiiiiii''
         unlabelled_db = (Inl (DbError ''57P01''), unlabelled_db\<lparr>refreshTokens := []\<rparr>)
   \<and> unlabelled_row \<notin> set (refreshTokens (unlabelled_db\<lparr>refreshTokens := []\<rparr>))
   \<and> length (live_records (hashToken ref_env ''refresh-secret|i|a@x.com|iiiii|diiiiiii'')
         unlabelled_db) \<le> 1
   \<and> select_refreshToken (hashToken ref_env ''refresh-secret|i|a@x.com|iiiii|diiiiiii'')
         (unlabelled_db\<lparr>refreshTokens := []\<rparr>) = None"
proof -
  let ?t = "''refresh-secret|i|a@x.com|iiiii|diiiiiii''"
  let ?dec = "PayloadObject \<lparr>payload_id = 1, payload_email = ''a@x.com''\<rparr>"
  let ?v = "\<lparr>new_userId = 1, new_tokenHash = ''sha256:refresh-secret|i|a@x.com|iiiiiii|diiiiiii'',
          new_device = ''Unknown'', new_expiresAt = 604807000\<rparr>"
  have ne: "?t \<noteq> []" by simp
  have v: "verifyToken ref_env 7000 ?t = Inr ?dec"
    by (simp add: verifyToken_def scenario_defs)
  have nf: "\<not> falsy_decoded ?dec" by simp
  have so: "select_refreshToken (hashToken ref_env ?t) orphan_db = Some unlabelled_row"
    by (simp add: select_refreshToken_def hashToken_def ref_env_def orphan_db_def
        unlabelled_row_def)
  have su: "select_refreshToken (hashToken ref_env ?t) unlabelled_db = Some unlabelled_row"
    by (simp add: select_refreshToken_def hashToken_def ref_env_def unlabelled_db_def
        unlabelled_row_def)
  have ex: "\<not> expiresAt unlabelled_row < 7000" by (simp add: unlabelled_row_def)
  have do: "delete_refreshToken (tid unlabelled_row) orphan_db = orphan_db\<lparr>refreshTokens := []\<rparr>"
    by (simp add: delete_refreshToken_def orphan_db_def)
  have du: "delete_refreshToken (tid unlabelled_row) unlabelled_db =
       unlabelled_db\<lparr>refreshTokens := []\<rparr>"
    by (simp add: delete_refreshToken_def unlabelled_db_def)
  have uo: "select_user_by_id (userId unlabelled_row) (orphan_db\<lparr>refreshTokens := []\<rparr>) = None"
    by (simp add: select_user_by_id_def orphan_db_def)
  have uu: "select_user_by_id (userId unlabelled_row) (unlabelled_db\<lparr>refreshTokens := []\<rparr>) =
       Some alice"
    by (simp add: select_user_by_id_def unlabelled_db_def unlabelled_row_def alice_def)
  have fi: "failing_insert 7000 (unlabelled_db\<lparr>refreshTokens := []\<rparr>) ?v = Inl (DbError ''57P01'')"
    by (simp add: failing_insert_def)
  have vals: "\<lparr>new_userId = uid alice,
        new_tokenHash = hashToken ref_env (generateRefreshToken ref_env 7000 alice),
        new_device = device_or_unknown_device (stored_device_or_unknown (device unlabelled_row)),
        new_expiresAt = 7000 + 7 * 24 * 60 * 60 * 1000\<rparr> = ?v"
    by (simp add: hashToken_def generateRefreshToken_def scenario_defs unlabelled_row_def
        device_or_unknown_device_def stored_device_or_unknown_def)
  have lu: "length (live_records (hashToken ref_env ?t) unlabelled_db) \<le> 1"
    by (simp add: live_records_def unlabelled_db_def)
  from refresh_consumes_before_later_failure [where ins = insert_refreshToken, OF ne v nf so ex]
    uo do
  have r1: "refresh_with insert_refreshToken ref_env 7000 ?t orphan_db =
      (Inl NotFound, orphan_db\<lparr>refreshTokens := []\<rparr>)"
    by simp
  from refresh_consumes_before_later_failure [where ins = failing_insert and u = alice
      and err = "DbError ''57P01''", OF ne v nf su ex] uu du fi vals lu
  have r2: "refresh_with failing_insert ref_env 7000 ?t unlabelled_db =
      (Inl (DbError ''57P01''), unlabelled_db\<lparr>refreshTokens := []\<rparr>)"
    and r3: "unlabelled_row \<notin> set (refreshTokens (unlabelled_db\<lparr>refreshTokens := []\<rparr>))"
    and r4: "select_refreshToken (hashToken ref_env ?t) (unlabelled_db\<lparr>refreshTokens := []\<rparr>) = None"
    by simp_all
  from ne v so ex uo r1 su uu fi r2 r3 lu r4 show ?thesis by simp
qed

end
